theory Spec2Isabelle
  imports Complex_Main
begin

section \<open>Retrying coroutines and asynchronous generators (retry_async.py)\<close>

text \<open>
  A shallow embedding of \<^verbatim>\<open>google/api_core/retry_async.py\<close>: the streaming executor
  \<^verbatim>\<open>retry_target_generator\<close>, the single-shot executor \<^verbatim>\<open>retry_target\<close> and the
  policy class \<^verbatim>\<open>AsyncRetry\<close> with its \<^verbatim>\<open>_replace\<close> family.

  Durations and clock readings are real numbers of seconds. Everything the executors
  await is supplied by the environment: the target, the streams it creates, the consumer
  of the wrapper and the clock. One run of the program against one environment is one
  evaluation of the functions below; each reply of the environment carries the wall-clock
  time that passed while the executor was waiting for it, as the two calls of
  \<^verbatim>\<open>datetime_helpers.utcnow()\<close> around the await would measure it.
\<close>

subsection \<open>Exceptions\<close>

text \<open>
  The exceptions the code raises or tells apart. \<open>RetryError t cause\<close> is
  \<^verbatim>\<open>exceptions.RetryError("Timeout of {:.1f}s exceeded ...".format(t), cause)\<close>;
  \<open>AppError n\<close> stands for any other instance of \<^verbatim>\<open>Exception\<close> and \<open>BaseError n\<close>
  for an instance of \<^verbatim>\<open>BaseException\<close> outside \<^verbatim>\<open>Exception\<close>.
\<close>

datatype exc =
    StopAsyncIteration
  | GeneratorExit
  | TimeoutError
  | CancelledError
  | TypeError
  | UnboundLocalError
  | ValueError
  | RuntimeError
  | RetryError real "exc option"
  | AppError nat
  | BaseError nat

fun is_Exception :: "exc \<Rightarrow> bool" where
  "is_Exception GeneratorExit = False"
| "is_Exception CancelledError = False"
| "is_Exception (BaseError n) = False"
| "is_Exception e = True"

text \<open>
  \<^verbatim>\<open>timeout = kwargs.get("deadline", timeout)\<close>: the keyword \<^verbatim>\<open>deadline\<close>, when it is
  passed (even as \<^verbatim>\<open>None\<close>), overrides \<^verbatim>\<open>timeout\<close>.
\<close>

definition kwargs_get :: "real option option \<Rightarrow> real option \<Rightarrow> real option" where
  "kwargs_get deadline timeout = (case deadline of None \<Rightarrow> timeout | Some d \<Rightarrow> d)"

text \<open>Python's truth value of an optional number: \<^verbatim>\<open>None\<close> and zero are false.\<close>

definition truthy :: "real option \<Rightarrow> bool" where
  "truthy x = (case x of None \<Rightarrow> False | Some t \<Rightarrow> t \<noteq> 0)"

text \<open>
  The deadline-exceeded error. Formatting \<^verbatim>\<open>None\<close> with \<^verbatim>\<open>{:.1f}\<close> raises
  \<^verbatim>\<open>TypeError\<close> before a \<^verbatim>\<open>RetryError\<close> exists.
\<close>

definition retry_error :: "real option \<Rightarrow> exc option \<Rightarrow> exc" where
  "retry_error timeout cause =
     (case timeout of None \<Rightarrow> TypeError | Some t \<Rightarrow> RetryError t cause)"

subsection \<open>The environment\<close>

text \<open>
  A reply to an await: a value or an exception, with the time the await took.
\<close>

datatype 'v reply = Produces real 'v | Raises real exc

text \<open>
  An asynchronous generator is the list of its resumptions still to come. A resumption
  answers \<^verbatim>\<open>asend(x)\<close> with \<open>on_send x\<close> and \<^verbatim>\<open>athrow(e)\<close> with
  \<open>on_throw e\<close>; \<open>on_close\<close> is what \<^verbatim>\<open>aclose()\<close> raises when the generator is
  closed while it is suspended at the value this resumption produced (\<open>None\<close>: its
  cleanup raises nothing). With no resumption left the generator returns when it is sent
  a value (\<^verbatim>\<open>StopAsyncIteration\<close>) and lets an injected exception through.
\<close>

datatype 'v step =
  Step (on_send: "'v option \<Rightarrow> 'v reply") (on_throw: "exc \<Rightarrow> 'v reply")
    (on_close: "exc option")

definition item :: "real \<Rightarrow> 'v \<Rightarrow> 'v step" where
  "item d v = Step (\<lambda>_. Produces d v) (\<lambda>e. Raises 0 e) None"

definition failing :: "real \<Rightarrow> exc \<Rightarrow> 'v step" where
  "failing d e = Step (\<lambda>_. Raises d e) (\<lambda>e'. Raises 0 e') None"

text \<open>A value after \<open>d\<close> seconds, from a generator whose cleanup raises \<open>e\<close>.\<close>

definition item_unclean :: "real \<Rightarrow> 'v \<Rightarrow> exc \<Rightarrow> 'v step" where
  "item_unclean d v e = Step (\<lambda>_. Produces d v) (\<lambda>e'. Raises 0 e') (Some e)"

text \<open>
  \<^verbatim>\<open>subgenerator.asend(x)\<close> and \<^verbatim>\<open>subgenerator.athrow(e)\<close> on a generator with the
  resumptions \<open>sc\<close> to come; either way the generator goes on with \<open>tl sc\<close>. An
  injected \<^verbatim>\<open>StopAsyncIteration\<close> that the generator lets through comes out as
  \<^verbatim>\<open>RuntimeError\<close>.
\<close>

definition asend :: "'v step list \<Rightarrow> 'v option \<Rightarrow> 'v reply" where
  "asend sc x = (case sc of [] \<Rightarrow> Raises 0 StopAsyncIteration | s # rest \<Rightarrow> on_send s x)"

definition athrow :: "'v step list \<Rightarrow> exc \<Rightarrow> 'v reply" where
  "athrow sc e =
     (case sc of
        [] \<Rightarrow> Raises 0 (if e = StopAsyncIteration then RuntimeError else e)
      | s # rest \<Rightarrow> on_throw s e)"

text \<open>
  What \<^verbatim>\<open>aclose()\<close> will raise once the next resumption of \<open>sc\<close> has produced its
  value.
\<close>

definition at_yield :: "'v step list \<Rightarrow> exc option" where
  "at_yield sc = (case sc of [] \<Rightarrow> None | s # rest \<Rightarrow> on_close s)"

text \<open>What one call of \<^verbatim>\<open>target()\<close> does: raise, or hand out a new generator.\<close>

datatype 'v source = FactoryRaises exc | Stream "'v step list"

text \<open>
  What the consumer does with the wrapper when it has received a value, after some time
  of its own: pull again (\<^verbatim>\<open>asend\<close>), \<^verbatim>\<open>aclose\<close>, or \<^verbatim>\<open>athrow\<close>.
\<close>

datatype 'v action = Next real "'v option" | Close real | Throw real exc

datatype 'v hook_result = HookReturns "'v option" | HookRaises exc

datatype 'v event =
    EOpen nat
  | EPull nat "'v option"
  | EThrowIn nat exc
  | EClose nat
  | EYield 'v
  | EAttempt nat
  | EClassify exc
  | EOnError "exc option"
  | ESleep real

subsection \<open>State of a run\<close>

text \<open>
  \<open>clock\<close> is what \<^verbatim>\<open>utcnow()\<close> would return, in seconds since the run began;
  \<open>calls\<close> counts the invocations of \<^verbatim>\<open>target\<close>, and the generator created by
  invocation \<open>i\<close> is handle \<open>i\<close>; \<open>log\<close> holds the events of the run, newest first
  (\<open>EClassify e\<close> is a call \<^verbatim>\<open>predicate(e)\<close>).
\<close>

record 'v run_state =
  clock :: real
  last_exc :: "exc option"
  calls :: nat
  log :: "'v event list"

text \<open>
  The locals of \<^verbatim>\<open>retry_target_generator\<close>; \<open>start_timestamp = None\<close> is the local
  that has not been assigned yet, \<open>subgenerator = None\<close> is Python's \<^verbatim>\<open>None\<close>.
  Two more fields hold what Python keeps about the generators: \<open>cleanup\<close> is what
  \<^verbatim>\<open>subgenerator.aclose()\<close> would raise now (\<open>None\<close> when the generator has not
  started, has finished, or closes quietly); \<open>closing\<close> says that the consumer has
  called \<^verbatim>\<open>aclose()\<close> on the wrapper, which is then not allowed to yield again.
\<close>

record 'v gen_state = "'v run_state" +
  remaining_timeout_budget :: "real option"
  start_timestamp :: "real option"
  subgenerator :: "nat option"
  cleanup :: "exc option"
  closing :: bool

definition advance :: "real \<Rightarrow> ('v, 'a) run_state_scheme \<Rightarrow> ('v, 'a) run_state_scheme" where
  "advance d st = st\<lparr>clock := clock st + d\<rparr>"

definition emit :: "'v event \<Rightarrow> ('v, 'a) run_state_scheme \<Rightarrow> ('v, 'a) run_state_scheme" where
  "emit e st = st\<lparr>log := e # log st\<rparr>"

definition trace :: "('v, 'a) run_state_scheme \<Rightarrow> 'v event list" where
  "trace st = rev (log st)"

fun yields :: "'v event list \<Rightarrow> 'v list" where
  "yields [] = []"
| "yields (EYield v # es) = v # yields es"
| "yields (e # es) = yields es"

subsection \<open>The streaming executor: retry_target_generator\<close>

text \<open>
  \<^verbatim>\<open>remaining_timeout_budget -= (utcnow() - start_timestamp).total_seconds()\<close> under
  \<^verbatim>\<open>if remaining_timeout_budget is not None\<close>. Reading the unassigned local raises.
\<close>

definition charge_elapsed :: "'v gen_state \<Rightarrow> exc + 'v gen_state" where
  "charge_elapsed st =
     (case remaining_timeout_budget st of
        None \<Rightarrow> Inr st
      | Some r \<Rightarrow>
          (case start_timestamp st of
             None \<Rightarrow> Inl UnboundLocalError
           | Some t0 \<Rightarrow> Inr (st\<lparr>remaining_timeout_budget := Some (r - (clock st - t0))\<rparr>)))"

text \<open>
  \<^verbatim>\<open>if remaining_timeout_budget <= 0: raise RetryError(..., None)\<close>. Python 3 does not
  order \<^verbatim>\<open>None\<close> and a number: the comparison raises \<^verbatim>\<open>TypeError\<close>.
\<close>

definition budget_check :: "real option \<Rightarrow> 'v gen_state \<Rightarrow> exc option" where
  "budget_check timeout st =
     (case remaining_timeout_budget st of
        None \<Rightarrow> Some TypeError
      | Some r \<Rightarrow> if r \<le> 0 then Some (retry_error timeout None) else None)"

text \<open>
  \<^verbatim>\<open>await subgenerator.aclose()\<close>: the generator runs its cleanup and is finished; what
  the cleanup raises comes out of the \<^verbatim>\<open>await\<close>. On a generator that has not started
  or has finished it does nothing.
\<close>

definition aclose :: "nat \<Rightarrow> 'v gen_state \<Rightarrow> exc option \<times> 'v gen_state" where
  "aclose h st = (cleanup st, emit (EClose h) (st\<lparr>cleanup := None\<rparr>))"

text \<open>
  How control leaves the body of the \<^verbatim>\<open>try\<close>: by \<^verbatim>\<open>return\<close>, by an exception, or
  not at all, the wrapper staying suspended at a \<^verbatim>\<open>yield\<close>: \<open>TSuspend\<close> when the
  consumer never resumes it, \<open>TIgnoredExit\<close> when it yields while the consumer is
  closing it (the consumer's \<^verbatim>\<open>aclose()\<close> then raises \<^verbatim>\<open>RuntimeError\<close>).
\<close>

datatype try_exit = TReturn | TRaise exc | TSuspend | TIgnoredExit

text \<open>
  \<^verbatim>\<open>except GeneratorExit: await subgenerator.aclose(); return\<close>. The \<^verbatim>\<open>await\<close> is
  inside the outer \<^verbatim>\<open>try\<close>: what it raises goes to the outer \<^verbatim>\<open>except\<close> clauses.
\<close>

definition on_generator_exit ::
  "nat \<Rightarrow> 'v action list \<Rightarrow> 'v gen_state \<Rightarrow> try_exit \<times> 'v action list \<times> 'v gen_state"
where
  "on_generator_exit h acts st =
     (case aclose h st of
        (None, st') \<Rightarrow> (TReturn, acts, st')
      | (Some e, st') \<Rightarrow> (TRaise e, acts, st'))"

text \<open>
  The \<^verbatim>\<open>while True\<close> loop over the generator \<open>h\<close>, whose resumptions to come are
  \<open>sc\<close>. \<^verbatim>\<open>asyncio.wait_for\<close> bounds the pull by the remaining budget; what the bounded
  await gave, and after how long, is the reply of the environment. A generator that has
  raised is finished.
\<close>

fun forward ::
  "real option \<Rightarrow> nat \<Rightarrow> 'v step list \<Rightarrow> 'v option \<Rightarrow> 'v action list \<Rightarrow> 'v gen_state
    \<Rightarrow> try_exit \<times> 'v action list \<times> 'v gen_state"
where
  "forward timeout h sc sent_in acts st =
     (case budget_check timeout st of
        Some e \<Rightarrow> (TRaise e, acts, st)
      | None \<Rightarrow>
          (let st1 = emit (EPull h sent_in) (st\<lparr>start_timestamp := Some (clock st)\<rparr>) in
           case asend sc sent_in of
             Raises d e \<Rightarrow> (TRaise e, acts, advance d (st1\<lparr>cleanup := None\<rparr>))
           | Produces d next_value \<Rightarrow>
               (case charge_elapsed (advance d (st1\<lparr>cleanup := at_yield sc\<rparr>)) of
                  Inl e \<Rightarrow> (TRaise e, acts, advance d (st1\<lparr>cleanup := at_yield sc\<rparr>))
                | Inr st2 \<Rightarrow>
                    (let st3 = emit (EYield next_value) st2 in
                     if closing st3 then (TIgnoredExit, acts, st3)
                     else
                       case acts of
                         [] \<Rightarrow> (TSuspend, [], st3)
                       | Next c x # acts' \<Rightarrow> forward timeout h (tl sc) x acts' (advance c st3)
                       | Close c # acts' \<Rightarrow>
                           on_generator_exit h acts' (advance c (st3\<lparr>closing := True\<rparr>))
                       | Throw c e # acts' \<Rightarrow>
                           if e = GeneratorExit then on_generator_exit h acts' (advance c st3)
                           else
                             (let st4 = emit (EThrowIn h e) (advance c st3) in
                              case athrow (tl sc) e of
                                Raises d' e' \<Rightarrow>
                                  (TRaise e', acts', advance d' (st4\<lparr>cleanup := None\<rparr>))
                              | Produces d' v' \<Rightarrow>
                                  forward timeout h (tl (tl sc)) sent_in acts'
                                    (advance d' (st4\<lparr>cleanup := at_yield (tl sc)\<rparr>)))))))"

text \<open>
  \<^verbatim>\<open>subgenerator = target()\<close> followed by the loop: the body of the \<^verbatim>\<open>try\<close>.
\<close>

definition try_body ::
  "(nat \<Rightarrow> 'v source) \<Rightarrow> real option \<Rightarrow> 'v action list \<Rightarrow> 'v gen_state
    \<Rightarrow> try_exit \<times> 'v action list \<times> 'v gen_state"
where
  "try_body target timeout acts st =
     (let i = calls st; st0 = st\<lparr>calls := Suc i\<rparr> in
      case target i of
        FactoryRaises e \<Rightarrow> (TRaise e, acts, st0)
      | Stream sc \<Rightarrow>
          forward timeout i sc None acts
            (emit (EOpen i) (st0\<lparr>subgenerator := Some i, cleanup := None\<rparr>)))"

text \<open>
  \<^verbatim>\<open>finally: if subgenerator is not None: await subgenerator.aclose()\<close>.
\<close>

definition finally_close :: "'v gen_state \<Rightarrow> exc option \<times> 'v gen_state" where
  "finally_close st = (case subgenerator st of None \<Rightarrow> (None, st) | Some h \<Rightarrow> aclose h st)"

text \<open>
  How a run of the wrapper ends. \<open>Suspended\<close>: the consumer stopped resuming it.
  \<open>IgnoredClose\<close>: the wrapper yielded while the consumer was closing it; the
  consumer's \<^verbatim>\<open>aclose()\<close> has raised \<^verbatim>\<open>RuntimeError\<close> and the wrapper is left
  suspended at that \<^verbatim>\<open>yield\<close>.
\<close>

datatype gen_outcome = Exhausted | Closed | Suspended | IgnoredClose | Raised exc

text \<open>
  The \<^verbatim>\<open>except\<close> clauses, for a body left by \<^verbatim>\<open>return\<close> or by an exception: the
  wrapper is about to be left (\<open>Leave\<close>), or control is about to fall through to the
  code after the \<^verbatim>\<open>try\<close> statement.
\<close>

datatype pending = Leave gen_outcome | FallThrough

definition except_clauses ::
  "(exc \<Rightarrow> bool) \<Rightarrow> try_exit \<Rightarrow> 'v gen_state \<Rightarrow> pending \<times> 'v gen_state"
where
  "except_clauses predicate x st =
     (case x of
        TRaise exc \<Rightarrow>
          if exc = StopAsyncIteration then (Leave Exhausted, st)
          else if is_Exception exc \<or> exc = CancelledError then
            (let st1 = emit (EClassify exc) st in
             if \<not> predicate exc \<and> exc \<noteq> TimeoutError then (Leave (Raised exc), st1)
             else
               (case charge_elapsed (st1\<lparr>last_exc := Some exc\<rparr>) of
                  Inl e \<Rightarrow> (Leave (Raised e), st1\<lparr>last_exc := Some exc\<rparr>)
                | Inr st2 \<Rightarrow> (FallThrough, st2)))
          else (Leave (Raised exc), st)
      | _ \<Rightarrow> (Leave Closed, st))"

text \<open>
  The \<^verbatim>\<open>except\<close> clauses and then the \<^verbatim>\<open>finally\<close>, whose own exception replaces
  whatever was pending. \<open>Inl\<close>: the wrapper is left, or stays suspended inside the
  body; \<open>Inr\<close>: control falls through.
\<close>

definition handle_exit ::
  "(exc \<Rightarrow> bool) \<Rightarrow> try_exit \<Rightarrow> 'v gen_state \<Rightarrow> (gen_outcome \<times> 'v gen_state) + 'v gen_state"
where
  "handle_exit predicate x st =
     (case x of
        TSuspend \<Rightarrow> Inl (Suspended, st)
      | TIgnoredExit \<Rightarrow> Inl (IgnoredClose, st)
      | _ \<Rightarrow>
          (case except_clauses predicate x st of
             (p, st1) \<Rightarrow>
               (case finally_close st1 of
                  (Some e, st2) \<Rightarrow> Inl (Raised e, st2)
                | (None, st2) \<Rightarrow>
                    (case p of Leave out \<Rightarrow> Inl (out, st2) | FallThrough \<Rightarrow> Inr st2))))"

text \<open>
  \<^verbatim>\<open>if on_error is not None: error_result = on_error(last_exc)\<close>, and the
  \<^verbatim>\<open>yield error_result\<close> when it is not \<^verbatim>\<open>None\<close>. This \<^verbatim>\<open>yield\<close> is outside the
  \<^verbatim>\<open>try\<close>: what the consumer injects there leaves the wrapper.
\<close>

definition hook_step ::
  "(exc option \<Rightarrow> 'v hook_result) option \<Rightarrow> 'v action list \<Rightarrow> 'v gen_state
    \<Rightarrow> (gen_outcome \<times> 'v gen_state) + ('v action list \<times> 'v gen_state)"
where
  "hook_step on_error acts st =
     (case on_error of
        None \<Rightarrow> Inr (acts, st)
      | Some f \<Rightarrow>
          (let st1 = emit (EOnError (last_exc st)) st in
           case f (last_exc st) of
             HookRaises e \<Rightarrow> Inl (Raised e, st1)
           | HookReturns None \<Rightarrow> Inr (acts, st1)
           | HookReturns (Some error_result) \<Rightarrow>
               (let st2 = emit (EYield error_result) st1 in
                if closing st2 then Inl (IgnoredClose, st2)
                else
                  case acts of
                    [] \<Rightarrow> Inl (Suspended, st2)
                  | Next c x # acts' \<Rightarrow> Inr (acts', advance c st2)
                  | Close c # acts' \<Rightarrow> Inl (Closed, advance c (st2\<lparr>closing := True\<rparr>))
                  | Throw c e # acts' \<Rightarrow>
                      Inl (if e = GeneratorExit then Closed else Raised e, advance c st2))))"

text \<open>
  The budget test before the sleep:
  \<^verbatim>\<open>if remaining_timeout_budget is not None: if remaining_timeout_budget <= sleep: raise
  RetryError(..., last_exc) from last_exc; else: remaining_timeout_budget -= sleep\<close>.
\<close>

definition budget_step :: "real option \<Rightarrow> real \<Rightarrow> 'v gen_state \<Rightarrow> exc + 'v gen_state" where
  "budget_step timeout sleep st =
     (case remaining_timeout_budget st of
        None \<Rightarrow> Inr st
      | Some r \<Rightarrow>
          if r \<le> sleep then Inl (retry_error timeout (last_exc st))
          else Inr (st\<lparr>remaining_timeout_budget := Some (r - sleep)\<rparr>))"

text \<open>\<^verbatim>\<open>await asyncio.sleep(sleep)\<close>; a delay that is not positive takes no time.\<close>

definition do_sleep :: "real \<Rightarrow> ('v, 'a) run_state_scheme \<Rightarrow> ('v, 'a) run_state_scheme" where
  "do_sleep sleep st = advance (max 0 sleep) (emit (ESleep sleep) st)"

text \<open>
  \<^verbatim>\<open>for sleep in sleep_generator: ...\<close> and the \<^verbatim>\<open>ValueError\<close> after it. The sleep
  generator is the list of the delays it yields.
\<close>

fun gen_loop ::
  "(nat \<Rightarrow> 'v source) \<Rightarrow> (exc \<Rightarrow> bool) \<Rightarrow> real option \<Rightarrow> (exc option \<Rightarrow> 'v hook_result) option
    \<Rightarrow> real list \<Rightarrow> 'v action list \<Rightarrow> 'v gen_state \<Rightarrow> gen_outcome \<times> 'v gen_state"
where
  "gen_loop target predicate timeout on_error [] acts st = (Raised ValueError, st)"
| "gen_loop target predicate timeout on_error (sleep # sleeps) acts st =
     (case try_body target timeout acts st of
        (x, acts1, st1) \<Rightarrow>
          (case handle_exit predicate x st1 of
             Inl fin \<Rightarrow> fin
           | Inr st2 \<Rightarrow>
               (case hook_step on_error acts1 st2 of
                  Inl fin \<Rightarrow> fin
                | Inr (acts2, st3) \<Rightarrow>
                    (case budget_step timeout sleep st3 of
                       Inl e \<Rightarrow> (Raised e, st3)
                     | Inr st4 \<Rightarrow>
                         gen_loop target predicate timeout on_error sleeps acts2
                           (do_sleep sleep st4)))))"

definition gen_init :: "real option \<Rightarrow> 'v gen_state" where
  "gen_init timeout =
     \<lparr>clock = 0, last_exc = None, calls = 0, log = [],
      remaining_timeout_budget = (if truthy timeout then timeout else None),
      start_timestamp = None, subgenerator = None, cleanup = None, closing = False\<rparr>"

text \<open>
  A run of the wrapper that the consumer has started with its first pull; \<open>consumer\<close>
  lists what the consumer does at each value it receives.
\<close>

definition retry_target_generator ::
  "(nat \<Rightarrow> 'v source) \<Rightarrow> (exc \<Rightarrow> bool) \<Rightarrow> real list \<Rightarrow> real option
    \<Rightarrow> (exc option \<Rightarrow> 'v hook_result) option \<Rightarrow> real option option \<Rightarrow> 'v action list
    \<Rightarrow> gen_outcome \<times> 'v gen_state"
where
  "retry_target_generator target predicate sleep_generator timeout on_error deadline consumer =
     gen_loop target predicate (kwargs_get deadline timeout) on_error sleep_generator consumer
       (gen_init (kwargs_get deadline timeout))"

subsection \<open>The single-shot executor: retry_target\<close>

datatype 'v call_outcome = Returned 'v | CallRaised exc

text \<open>
  \<^verbatim>\<open>if on_error is not None: on_error(last_exc)\<close>, inside the \<^verbatim>\<open>except\<close> clause: what
  the hook returns is dropped, what it raises leaves \<^verbatim>\<open>retry_target\<close>.
\<close>

definition call_hook ::
  "(exc option \<Rightarrow> 'v hook_result) option \<Rightarrow> 'v run_state
    \<Rightarrow> (exc \<times> 'v run_state) + 'v run_state"
where
  "call_hook on_error st =
     (case on_error of
        None \<Rightarrow> Inr st
      | Some f \<Rightarrow>
          (let st1 = emit (EOnError (last_exc st)) st in
           case f (last_exc st) of
             HookRaises e \<Rightarrow> Inl (e, st1)
           | HookReturns r \<Rightarrow> Inr st1))"

text \<open>
  \<^verbatim>\<open>now = utcnow()\<close> and the test under \<^verbatim>\<open>if deadline_dt\<close>: the run fails when the
  deadline has passed, and the sleep is cut to the time left otherwise.
\<close>

definition deadline_step :: "real option \<Rightarrow> real option \<Rightarrow> real \<Rightarrow> 'v run_state \<Rightarrow> exc + real" where
  "deadline_step timeout deadline_dt sleep st =
     (case deadline_dt of
        None \<Rightarrow> Inr sleep
      | Some dl \<Rightarrow>
          if dl \<le> clock st then Inl (retry_error timeout (last_exc st))
          else Inr (min (dl - clock st) sleep))"

text \<open>
  \<^verbatim>\<open>for sleep in sleep_generator: ...\<close>. \<open>target i\<close> is what the \<open>i\<close>-th attempt
  \<^verbatim>\<open>await target()\<close> gives, bounded by \<^verbatim>\<open>asyncio.wait_for\<close> when there is a deadline.
  \<^verbatim>\<open>except Exception\<close> lets every other \<^verbatim>\<open>BaseException\<close> through.
\<close>

fun call_loop ::
  "(nat \<Rightarrow> 'v reply) \<Rightarrow> (exc \<Rightarrow> bool) \<Rightarrow> real option \<Rightarrow> real option
    \<Rightarrow> (exc option \<Rightarrow> 'v hook_result) option \<Rightarrow> real list \<Rightarrow> 'v run_state
    \<Rightarrow> 'v call_outcome \<times> 'v run_state"
where
  "call_loop target predicate timeout deadline_dt on_error [] st = (CallRaised ValueError, st)"
| "call_loop target predicate timeout deadline_dt on_error (sleep # sleeps) st =
     (let i = calls st; st1 = emit (EAttempt i) (st\<lparr>calls := Suc i\<rparr>) in
      case target i of
        Produces d v \<Rightarrow> (Returned v, advance d st1)
      | Raises d exc \<Rightarrow>
          (let st2 = advance d st1 in
           if \<not> is_Exception exc then (CallRaised exc, st2)
           else if \<not> predicate exc \<and> exc \<noteq> TimeoutError
           then (CallRaised exc, emit (EClassify exc) st2)
           else
             (case call_hook on_error (emit (EClassify exc) (st2\<lparr>last_exc := Some exc\<rparr>)) of
                Inl (e, st3) \<Rightarrow> (CallRaised e, st3)
              | Inr st3 \<Rightarrow>
                  (case deadline_step timeout deadline_dt sleep st3 of
                     Inl e \<Rightarrow> (CallRaised e, st3)
                   | Inr sleep' \<Rightarrow>
                       call_loop target predicate timeout deadline_dt on_error sleeps
                         (do_sleep sleep' st3)))))"

definition call_init :: "'v run_state" where
  "call_init = \<lparr>clock = 0, last_exc = None, calls = 0, log = []\<rparr>"

text \<open>
  \<^verbatim>\<open>deadline_dt = (utcnow() + timedelta(seconds=timeout)) if timeout else None\<close>, with
  the clock at 0 when the run begins.
\<close>

definition deadline_of :: "real option \<Rightarrow> real option" where
  "deadline_of timeout = (if truthy timeout then map_option (\<lambda>t. 0 + t) timeout else None)"

definition retry_target ::
  "(nat \<Rightarrow> 'v reply) \<Rightarrow> (exc \<Rightarrow> bool) \<Rightarrow> real list \<Rightarrow> real option
    \<Rightarrow> (exc option \<Rightarrow> 'v hook_result) option \<Rightarrow> real option option
    \<Rightarrow> 'v call_outcome \<times> 'v run_state"
where
  "retry_target target predicate sleep_generator timeout on_error deadline =
     call_loop target predicate (kwargs_get deadline timeout)
       (deadline_of (kwargs_get deadline timeout)) on_error sleep_generator call_init"

subsection \<open>The policy: AsyncRetry\<close>

text \<open>The attributes \<^verbatim>\<open>self._predicate\<close>, \<^verbatim>\<open>self._initial\<close>, ... of an instance.\<close>

record 'v async_retry =
  self_predicate :: "exc \<Rightarrow> bool"
  self_initial :: real
  self_multiplier :: real
  self_maximum :: real
  self_timeout :: "real option"
  self_deadline :: "real option"
  self_on_error :: "(exc option \<Rightarrow> 'v hook_result) option"
  self_is_generator :: "bool option"

text \<open>
  \<^verbatim>\<open>__init__\<close>; the arguments \<open>is_generator\<close> and \<open>deadline\<close> are \<open>None\<close> when the
  caller leaves them out.
\<close>

definition AsyncRetry ::
  "(exc \<Rightarrow> bool) \<Rightarrow> real \<Rightarrow> real \<Rightarrow> real \<Rightarrow> real option
    \<Rightarrow> (exc option \<Rightarrow> 'v hook_result) option \<Rightarrow> bool option \<Rightarrow> real option option
    \<Rightarrow> 'v async_retry"
where
  "AsyncRetry predicate initial maximum multiplier timeout on_error is_generator deadline =
     \<lparr>self_predicate = predicate, self_initial = initial, self_multiplier = multiplier,
      self_maximum = maximum, self_timeout = kwargs_get deadline timeout,
      self_deadline = kwargs_get deadline timeout, self_on_error = on_error,
      self_is_generator = is_generator\<rparr>"

text \<open>
  Python's \<^verbatim>\<open>x or y\<close>: \<open>y\<close> when \<open>x\<close> is \<^verbatim>\<open>None\<close>, and for a number also when it
  is zero.
\<close>

definition or_default :: "'a option \<Rightarrow> 'a \<Rightarrow> 'a" where
  "or_default x y = (case x of None \<Rightarrow> y | Some v \<Rightarrow> v)"

definition or_number :: "real option \<Rightarrow> real \<Rightarrow> real" where
  "or_number x y = (case x of None \<Rightarrow> y | Some v \<Rightarrow> if v = 0 then y else v)"

definition or_timeout :: "real option \<Rightarrow> real option \<Rightarrow> real option" where
  "or_timeout x y = (if truthy x then x else y)"

definition or_hook :: "'a option \<Rightarrow> 'a option \<Rightarrow> 'a option" where
  "or_hook x y = (case x of None \<Rightarrow> y | Some f \<Rightarrow> Some f)"

text \<open>\<^verbatim>\<open>_replace\<close>: a new instance; \<^verbatim>\<open>is_generator\<close> is not passed on.\<close>

definition replace ::
  "'v async_retry \<Rightarrow> (exc \<Rightarrow> bool) option \<Rightarrow> real option \<Rightarrow> real option \<Rightarrow> real option
    \<Rightarrow> real option \<Rightarrow> (exc option \<Rightarrow> 'v hook_result) option \<Rightarrow> 'v async_retry"
where
  "replace self predicate initial maximum multiplier timeout on_error =
     AsyncRetry
       (or_default predicate (self_predicate self))
       (or_number initial (self_initial self))
       (or_number maximum (self_maximum self))
       (or_number multiplier (self_multiplier self))
       (or_timeout timeout (self_timeout self))
       (or_hook on_error (self_on_error self))
       None None"

definition with_deadline :: "'v async_retry \<Rightarrow> real option \<Rightarrow> 'v async_retry" where
  "with_deadline self deadline = replace self None None None None deadline None"

definition with_timeout :: "'v async_retry \<Rightarrow> real option \<Rightarrow> 'v async_retry" where
  "with_timeout self timeout = replace self None None None None timeout None"

definition with_predicate :: "'v async_retry \<Rightarrow> (exc \<Rightarrow> bool) option \<Rightarrow> 'v async_retry" where
  "with_predicate self predicate = replace self predicate None None None None None"

definition with_delay ::
  "'v async_retry \<Rightarrow> real option \<Rightarrow> real option \<Rightarrow> real option \<Rightarrow> 'v async_retry"
where
  "with_delay self initial maximum multiplier =
     replace self None initial maximum multiplier None None"

subsection \<open>Open generators, read off the log\<close>

text \<open>
  The handles that are open after the events of a log (newest first): a generator is open
  from its creation by \<^verbatim>\<open>target()\<close> to its first \<^verbatim>\<open>aclose()\<close>.
\<close>

fun live :: "'v event list \<Rightarrow> nat set" where
  "live [] = {}"
| "live (EOpen h # l) = insert h (live l)"
| "live (EClose h # l) = live l - {h}"
| "live (e # l) = live l"

text \<open>Every generator of the log was created while no other was open.\<close>

fun exclusive :: "'v event list \<Rightarrow> bool" where
  "exclusive [] = True"
| "exclusive (EOpen h # l) = (live l = {} \<and> exclusive l)"
| "exclusive (e # l) = exclusive l"

text \<open>Inside the loop over generator \<open>h\<close>: nothing but \<open>h\<close> is open.\<close>

definition tidy :: "nat \<Rightarrow> 'v gen_state \<Rightarrow> bool" where
  "tidy h st = (subgenerator st = Some h \<and> exclusive (log st) \<and> live (log st) \<subseteq> {h})"

text \<open>At the exit of the \<^verbatim>\<open>try\<close> body: nothing but \<^verbatim>\<open>subgenerator\<close> is open.\<close>

definition settled :: "'v gen_state \<Rightarrow> bool" where
  "settled st = (exclusive (log st) \<and> live (log st) \<subseteq> set_option (subgenerator st))"

text \<open>Between two attempts: nothing is open.\<close>

definition calm :: "'v gen_state \<Rightarrow> bool" where
  "calm st = (exclusive (log st) \<and> live (log st) = {})"


section \<open>Properties\<close>

declare forward.simps [simp del]

lemmas gen_defs =
  retry_target_generator_def gen_init_def kwargs_get_def truthy_def try_body_def
  forward.simps on_generator_exit_def asend_def athrow_def at_yield_def budget_check_def
  emit_def advance_def item_def failing_def item_unclean_def charge_elapsed_def
  handle_exit_def except_clauses_def finally_close_def aclose_def hook_step_def
  budget_step_def do_sleep_def retry_error_def

lemmas call_defs =
  retry_target_def call_init_def deadline_of_def kwargs_get_def truthy_def call_hook_def
  deadline_step_def emit_def advance_def do_sleep_def retry_error_def

lemmas policy_defs =
  with_timeout_def with_predicate_def with_delay_def with_deadline_def replace_def
  AsyncRetry_def or_default_def or_number_def or_timeout_def or_hook_def kwargs_get_def
  truthy_def

subsection \<open>One generator at a time\<close>

lemma tidy_advance [simp]: "tidy h (advance d st) = tidy h st"
  by (simp add: tidy_def advance_def)

lemma tidy_fields [simp]:
  "tidy h (st\<lparr>start_timestamp := t\<rparr>) = tidy h st"
  "tidy h (st\<lparr>cleanup := x\<rparr>) = tidy h st"
  "tidy h (st\<lparr>closing := b\<rparr>) = tidy h st"
  by (simp_all add: tidy_def)

lemma tidy_emit [simp]:
  "tidy h (emit (EPull k x) st) = tidy h st"
  "tidy h (emit (EYield v) st) = tidy h st"
  "tidy h (emit (EThrowIn k e) st) = tidy h st"
  by (simp_all add: tidy_def emit_def)

lemma tidy_aclose: "aclose h st = (r, st') \<Longrightarrow> tidy h st \<Longrightarrow> tidy h st'"
  by (auto simp: tidy_def aclose_def emit_def)

lemma tidy_on_generator_exit:
  "on_generator_exit h acts st = (x, acts', st') \<Longrightarrow> tidy h st \<Longrightarrow> tidy h st'"
  by (auto simp: on_generator_exit_def split: prod.splits option.splits dest: tidy_aclose)

lemma tidy_charge: "charge_elapsed st = Inr st' \<Longrightarrow> tidy h st' = tidy h st"
  by (auto simp: charge_elapsed_def tidy_def split: option.splits)

lemma forward_tidy:
  "forward timeout h sc sent_in acts st = (x, acts', st') \<Longrightarrow> tidy h st \<Longrightarrow> tidy h st'"
proof (induction timeout h sc sent_in acts st arbitrary: x acts' st' rule: forward.induct)
  case (1 timeout h sc sent_in acts st)
  show ?case using "1.prems" "1.IH"
    apply (subst (asm) forward.simps)
    apply (auto split: option.splits list.splits reply.splits sum.splits action.splits if_splits
        simp: Let_def tidy_charge dest: tidy_on_generator_exit)
    done
qed

lemma tidy_settled: "tidy h st \<Longrightarrow> settled st"
  by (simp add: tidy_def settled_def)

lemma try_body_settled:
  assumes "try_body target timeout acts st = (x, acts1, st1)" and "calm st"
  shows "settled st1"
proof (cases "target (calls st)")
  case (FactoryRaises e)
  with assms show ?thesis
    by (auto simp: try_body_def Let_def calm_def settled_def)
next
  case (Stream sc)
  let ?st0 = "emit (EOpen (calls st))
    (st\<lparr>calls := Suc (calls st), subgenerator := Some (calls st), cleanup := None\<rparr>)"
  from assms(2) have "tidy (calls st) ?st0"
    by (simp add: tidy_def calm_def emit_def)
  moreover from assms(1) Stream
  have "forward timeout (calls st) sc None acts ?st0 = (x, acts1, st1)"
    by (simp add: try_body_def Let_def)
  ultimately have "tidy (calls st) st1"
    by (rule forward_tidy [rotated])
  then show ?thesis by (rule tidy_settled)
qed

lemma finally_close_calm: "finally_close st = (r, st') \<Longrightarrow> settled st \<Longrightarrow> calm st'"
  by (auto simp: settled_def calm_def finally_close_def aclose_def emit_def split: option.splits)

lemma settled_charge: "charge_elapsed st = Inr st' \<Longrightarrow> settled st' = settled st"
  by (auto simp: charge_elapsed_def settled_def split: option.splits)

lemma except_clauses_settled:
  "except_clauses predicate x st = (p, st') \<Longrightarrow> settled st \<Longrightarrow> settled st'"
  by (auto simp: except_clauses_def Let_def settled_def emit_def charge_elapsed_def
      split: try_exit.splits if_splits sum.splits option.splits)

lemma handle_exit_left:
  assumes "handle_exit predicate x st = Inl (out, st')" and "settled st"
  shows "exclusive (log st') \<and> (out \<noteq> Suspended \<and> out \<noteq> IgnoredClose \<longrightarrow> live (log st') = {})"
proof (cases "x = TSuspend \<or> x = TIgnoredExit")
  case True
  with assms show ?thesis by (auto simp: handle_exit_def settled_def)
next
  case False
  obtain p st1 where ec: "except_clauses predicate x st = (p, st1)"
    by (cases "except_clauses predicate x st") auto
  obtain r st2 where fc: "finally_close st1 = (r, st2)"
    by (cases "finally_close st1") auto
  from ec assms(2) have "settled st1" by (rule except_clauses_settled)
  with fc have "calm st2" by (rule finally_close_calm)
  moreover from assms(1) False ec fc have "st' = st2"
    by (cases x; cases r; cases p) (auto simp: handle_exit_def)
  ultimately show ?thesis by (simp add: calm_def)
qed

lemma handle_exit_right:
  assumes "handle_exit predicate x st = Inr st'" and "settled st"
  shows "calm st'"
proof -
  obtain p st1 where ec: "except_clauses predicate x st = (p, st1)"
    by (cases "except_clauses predicate x st") auto
  obtain r st2 where fc: "finally_close st1 = (r, st2)"
    by (cases "finally_close st1") auto
  from ec assms(2) have "settled st1" by (rule except_clauses_settled)
  with fc have "calm st2" by (rule finally_close_calm)
  moreover from assms(1) ec fc have "st' = st2"
    by (cases x; cases r; cases p) (auto simp: handle_exit_def)
  ultimately show ?thesis by simp
qed

lemma calm_emit:
  "calm (emit (EYield v) st) = calm st"
  "calm (emit (EOnError e) st) = calm st"
  "calm (emit (ESleep s) st) = calm st"
  by (simp_all add: calm_def emit_def)

lemma calm_advance [simp]: "calm (advance d st) = calm st"
  by (simp add: calm_def advance_def)

lemma calm_closing [simp]: "calm (st\<lparr>closing := b\<rparr>) = calm st"
  by (simp add: calm_def)

lemma hook_step_left:
  "hook_step on_error acts st = Inl (out, st') \<Longrightarrow> calm st \<Longrightarrow> calm st'"
  by (auto simp: hook_step_def Let_def calm_emit
      split: option.splits hook_result.splits list.splits action.splits if_splits)

lemma hook_step_right:
  "hook_step on_error acts st = Inr (acts', st') \<Longrightarrow> calm st \<Longrightarrow> calm st'"
  by (auto simp: hook_step_def Let_def calm_emit
      split: option.splits hook_result.splits list.splits action.splits if_splits)

lemma budget_step_calm: "budget_step timeout sleep st = Inr st' \<Longrightarrow> calm st' = calm st"
  by (auto simp: budget_step_def calm_def split: option.splits if_splits)

lemma do_sleep_calm [simp]: "calm (do_sleep sleep st) = calm st"
  by (simp add: do_sleep_def calm_emit)

lemma gen_loop_calm:
  "gen_loop target predicate timeout on_error sleeps acts st = (out, st') \<Longrightarrow> calm st \<Longrightarrow>
     exclusive (log st') \<and> (out \<noteq> Suspended \<and> out \<noteq> IgnoredClose \<longrightarrow> live (log st') = {})"
proof (induction sleeps arbitrary: acts st)
  case Nil
  then show ?case by (simp add: calm_def)
next
  case (Cons sleep sleeps)
  obtain x acts1 st1 where tb: "try_body target timeout acts st = (x, acts1, st1)"
    by (cases "try_body target timeout acts st") auto
  from tb Cons.prems(2) have s1: "settled st1" by (rule try_body_settled)
  show ?case
  proof (cases "handle_exit predicate x st1")
    case (Inl fin)
    with Cons.prems(1) tb have "handle_exit predicate x st1 = Inl (out, st')" by simp
    then show ?thesis using s1 by (rule handle_exit_left)
  next
    case (Inr st2)
    then have c2: "calm st2" using s1 by (rule handle_exit_right)
    show ?thesis
    proof (cases "hook_step on_error acts1 st2")
      case (Inl fin)
      with Cons.prems(1) tb Inr have "hook_step on_error acts1 st2 = Inl (out, st')" by simp
      then have "calm st'" using c2 by (rule hook_step_left)
      then show ?thesis by (simp add: calm_def)
    next
      case hr: (Inr p)
      obtain acts2 st3 where p: "p = (acts2, st3)" by (cases p)
      with hr c2 have c3: "calm st3" by (auto dest: hook_step_right)
      show ?thesis
      proof (cases "budget_step timeout sleep st3")
        case (Inl e)
        with Cons.prems(1) tb Inr hr p have "st' = st3" by simp
        with c3 show ?thesis by (simp add: calm_def)
      next
        case br: (Inr st4)
        with c3 have "calm (do_sleep sleep st4)" by (simp add: budget_step_calm)
        moreover from Cons.prems(1) tb Inr hr p br
        have "gen_loop target predicate timeout on_error sleeps acts2 (do_sleep sleep st4) =
            (out, st')"
          by simp
        ultimately show ?thesis by (rule Cons.IH [rotated])
      qed
    qed
  qed
qed

lemma finite_live: "finite (live l)"
  by (induction l rule: live.induct) auto

lemma exclusive_card: "exclusive l \<Longrightarrow> card (live l) \<le> 1"
proof (induction l)
  case Nil
  then show ?case by simp
next
  case (Cons e l)
  show ?case
  proof (cases e)
    case (EClose h)
    have "card (live l - {h}) \<le> card (live l)"
      by (rule card_mono) (auto simp: finite_live)
    with Cons EClose show ?thesis by simp
  qed (use Cons in auto)
qed

lemma exclusive_tail: "exclusive (e # l) \<Longrightarrow> exclusive l"
  by (cases e) auto

lemma exclusive_drop: "exclusive l \<Longrightarrow> exclusive (drop k l)"
proof (induction k arbitrary: l)
  case 0
  then show ?case by simp
next
  case (Suc k)
  then show ?case by (cases l) (auto dest: exclusive_tail)
qed

text \<open>
  In every run each generator is created while no other generator is open, so at every
  moment of the run (the log as it was \<open>k\<close> events ago) at most one is open; and no
  generator is open when the wrapper has been left. A wrapper that stays suspended at a
  \<^verbatim>\<open>yield\<close> may hold its generator.
\<close>

lemma one_stream_at_a_time:
  assumes "retry_target_generator target predicate sleep_generator timeout on_error deadline
             consumer = (out, st)"
  shows "exclusive (log st) \<and> card (live (drop k (log st))) \<le> 1 \<and>
         (out \<noteq> Suspended \<and> out \<noteq> IgnoredClose \<longrightarrow> live (log st) = {})"
proof -
  have "calm (gen_init (kwargs_get deadline timeout) :: 'a gen_state)"
    by (simp add: calm_def gen_init_def)
  with assms have *: "exclusive (log st) \<and>
      (out \<noteq> Suspended \<and> out \<noteq> IgnoredClose \<longrightarrow> live (log st) = {})"
    unfolding retry_target_generator_def by (rule gen_loop_calm)
  then have "exclusive (drop k (log st))" by (simp add: exclusive_drop)
  then have "card (live (drop k (log st))) \<le> 1" by (rule exclusive_card)
  with * show ?thesis by simp
qed

text \<open>
  Claim C5. The code at a run whose generator raises from its cleanup an error that the
  classifier accepts: the consumer closes the wrapper at the first value; the
  \<^verbatim>\<open>aclose()\<close> of the generator, awaited inside the outer \<^verbatim>\<open>try\<close>, raises; the
  \<^verbatim>\<open>except\<close> clause takes the error for a retryable failure of the stream, the run
  sleeps, creates a second generator, pulls from it and yields its value while the
  consumer is closing the wrapper. The consumer's close ends with \<^verbatim>\<open>RuntimeError\<close>
  and the second generator is left open.
\<close>

theorem cleanup_error_reopens_stream:
  "retry_target_generator
     (\<lambda>i. if i = 0 then Stream [item_unclean 1 (1::nat) (AppError 0), item 1 2]
           else Stream [item 1 3])
     (\<lambda>e. e = AppError 0) [1, 2] (Some 60) None None [Close 0] =
   (IgnoredClose,
    \<lparr>clock = 3, last_exc = Some (AppError 0), calls = 2,
     log = [EYield 3, EPull 1 None, EOpen 1, ESleep 1, EClose 0, EClassify (AppError 0),
            EClose 0, EYield 1, EPull 0 None, EOpen 0],
     remaining_timeout_budget = Some 56, start_timestamp = Some 2, subgenerator = Some 1,
     cleanup = None, closing = True\<rparr>) \<and>
   live [EYield 3, EPull 1 None, EOpen 1, ESleep 1, EClose 0, EClassify (AppError 0),
         EClose 0, EYield 1, EPull 0 None, EOpen 0 :: nat event] = {1}"
  by (simp add: gen_defs)

subsection \<open>A run without a timeout\<close>

text \<open>
  Claim C1. The code at a run with no timeout (\<^verbatim>\<open>timeout=None\<close>, no \<^verbatim>\<open>deadline\<close>),
  for any stream, consumer and sleeps and a classifier that rejects \<^verbatim>\<open>TypeError\<close>:
  the test \<^verbatim>\<open>remaining_timeout_budget <= 0\<close> compares \<^verbatim>\<open>None\<close> with a number and
  raises before the first pull; the generator is created and closed, nothing is pulled
  and the run ends with \<^verbatim>\<open>TypeError\<close>.
\<close>

theorem no_timeout_budget_check_raises:
  "retry_target_generator (\<lambda>i. Stream sc) (\<lambda>e. e = AppError 0) (sleep # sleeps) None
      on_error None consumer =
   (Raised TypeError,
    \<lparr>clock = 0, last_exc = None, calls = 1, log = [EClose 0, EClassify TypeError, EOpen 0],
     remaining_timeout_budget = None, start_timestamp = None, subgenerator = Some 0,
     cleanup = None, closing = False\<rparr>)"
  by (simp add: gen_defs)

subsection \<open>Deadline-exceeded errors and their cause\<close>

text \<open>
  Claim C2. The code at a streaming run with a timeout of 10 seconds: the first generator
  fails after 1 second with an error the classifier accepts, the run sleeps 1 second, the
  second generator produces a value after the 8 seconds that were left, and the consumer
  pulls again. The test before that pull raises \<^verbatim>\<open>RetryError\<close> with cause \<^verbatim>\<open>None\<close>,
  although \<open>last_exc\<close> holds the error of the first attempt.
\<close>

theorem pull_deadline_error_has_no_cause:
  "retry_target_generator
     (\<lambda>i. if i = 0 then Stream [failing 1 (AppError 0)] else Stream [item 8 5, item 1 (6::nat)])
     (\<lambda>e. e = AppError 0) [1, 2] (Some 10) None None [Next 0 None] =
   (Raised (RetryError 10 None),
    \<lparr>clock = 10, last_exc = Some (AppError 0), calls = 2,
     log = [EClose 1, EClassify (RetryError 10 None), EYield 5, EPull 1 None, EOpen 1,
            ESleep 1, EClose 0, EClassify (AppError 0), EPull 0 None, EOpen 0],
     remaining_timeout_budget = Some 0, start_timestamp = Some 2, subgenerator = Some 1,
     cleanup = None, closing = False\<rparr>)"
  by (simp add: gen_defs)

subsection \<open>A target that raises before any pull\<close>

text \<open>
  Claim C10. The code at a streaming run with a timeout of 10 seconds whose first call of
  \<^verbatim>\<open>target()\<close> raises an error the classifier accepts: the \<^verbatim>\<open>except\<close> clause records
  the error and then reads \<^verbatim>\<open>start_timestamp\<close>, which no pull has assigned; the run
  ends with \<^verbatim>\<open>UnboundLocalError\<close>, with the budget untouched and without a sleep.
\<close>

theorem factory_failure_reads_unassigned_timestamp:
  "retry_target_generator (\<lambda>i. FactoryRaises (AppError 0)) (\<lambda>e. e = AppError 0)
      (sleep # sleeps) (Some 10) on_error None consumer =
   (Raised UnboundLocalError,
    \<lparr>clock = 0, last_exc = Some (AppError 0), calls = 1, log = [EClassify (AppError 0)],
     remaining_timeout_budget = Some 10, start_timestamp = None, subgenerator = None,
     cleanup = None, closing = False\<rparr>)"
  by (simp add: gen_defs)

subsection \<open>Fatal errors of the single-shot executor\<close>

text \<open>
  Claim C8. A single-shot run whose operation fails with an error that the classifier
  rejects and that is not a timeout of the attempt raises that very error, and the run
  consists of that one attempt: no hook call, no sleep, no second attempt. (The classifier
  is asked about an \<^verbatim>\<open>Exception\<close>; any other \<^verbatim>\<open>BaseException\<close> passes the
  \<^verbatim>\<open>except\<close> clause unseen.)
\<close>

theorem fatal_error_raised_unchanged:
  assumes "target 0 = Raises d e" and "\<not> predicate e" and "e \<noteq> TimeoutError"
  shows "retry_target target predicate (sleep # sleeps) timeout on_error deadline =
           (CallRaised e,
            \<lparr>clock = d, last_exc = None, calls = 1,
             log = (if is_Exception e then [EClassify e, EAttempt 0] else [EAttempt 0])\<rparr>)"
  using assms by (simp add: call_defs Let_def)

theorem fatal_error_raised_unchanged_witness:
  "(\<lambda>i. Raises 3 (AppError 1) :: nat reply) 0 = Raises 3 (AppError 1) \<and>
   \<not> (\<lambda>e. e = AppError 0) (AppError 1) \<and> AppError 1 \<noteq> TimeoutError \<and>
   retry_target (\<lambda>i. Raises 3 (AppError 1) :: nat reply) (\<lambda>e. e = AppError 0) [1, 2]
      (Some 10) None None =
     (CallRaised (AppError 1),
      \<lparr>clock = 3, last_exc = None, calls = 1, log = [EClassify (AppError 1), EAttempt 0]\<rparr>)"
  using fatal_error_raised_unchanged [of "\<lambda>i. Raises 3 (AppError 1)" 3 "AppError 1"
      "\<lambda>e. e = AppError 0" 1 "[2]" "Some 10" None None]
  by simp

subsection \<open>What the last error is when the sleep is reached\<close>

lemma call_hook_last_exc: "call_hook on_error st = Inr st' \<Longrightarrow> last_exc st' = last_exc st"
  by (auto simp: call_hook_def emit_def Let_def split: option.splits hook_result.splits)

lemma aclose_last_exc: "aclose h st = (r, st') \<Longrightarrow> last_exc st' = last_exc st"
  by (auto simp: aclose_def emit_def)

lemma finally_close_last_exc: "finally_close st = (r, st') \<Longrightarrow> last_exc st' = last_exc st"
  by (auto simp: finally_close_def split: option.splits dest: aclose_last_exc)

lemma charge_elapsed_last_exc: "charge_elapsed st = Inr st' \<Longrightarrow> last_exc st' = last_exc st"
  by (auto simp: charge_elapsed_def split: option.splits)

lemma except_clauses_last_exc:
  "except_clauses predicate (TRaise exc) st = (FallThrough, st') \<Longrightarrow> last_exc st' = Some exc"
  by (auto simp: except_clauses_def Let_def emit_def
      split: if_splits sum.splits dest: charge_elapsed_last_exc)

lemma handle_exit_last_exc:
  assumes "handle_exit predicate (TRaise exc) st = Inr st'"
  shows "last_exc st' = Some exc"
proof -
  obtain p st1 where ec: "except_clauses predicate (TRaise exc) st = (p, st1)"
    by (cases "except_clauses predicate (TRaise exc) st") auto
  obtain r st2 where fc: "finally_close st1 = (r, st2)"
    by (cases "finally_close st1") auto
  from assms ec fc have p: "p = FallThrough" and st': "st' = st2"
    by (cases r; cases p; auto simp: handle_exit_def)+
  from ec p have "last_exc st1 = Some exc"
    by (simp add: except_clauses_last_exc)
  moreover from fc have "last_exc st2 = last_exc st1"
    by (rule finally_close_last_exc)
  ultimately show ?thesis using st' by simp
qed

lemma hook_step_last_exc:
  "hook_step on_error acts st = Inr (acts', st') \<Longrightarrow> last_exc st' = last_exc st"
  by (auto simp: hook_step_def Let_def emit_def advance_def
      split: option.splits hook_result.splits list.splits action.splits if_splits)

subsection \<open>The budget test before the sleep\<close>

text \<open>
  Claim C3, as the claim states it, fails for the single-shot executor: with 1 second left
  to the deadline and a computed sleep of 2 seconds, \<^verbatim>\<open>retry_target\<close> does not fail; it
  sleeps the 1 second that is left and makes another attempt.
\<close>

theorem single_shot_sleeps_the_rest_counterexample:
  "deadline_step (Some 10) (Some 10) 2
     (\<lparr>clock = 9, last_exc = Some (AppError 0), calls = 1,
       log = [EClassify (AppError 0), EAttempt 0]\<rparr> :: nat run_state) = Inr 1 \<and>
   retry_target (\<lambda>i. if i = 0 then Raises 9 (AppError 0) else Raises 0 TimeoutError :: nat reply)
      (\<lambda>e. e = AppError 0) [2, 4] (Some 10) None None =
    (CallRaised (RetryError 10 (Some TimeoutError)),
     \<lparr>clock = 10, last_exc = Some TimeoutError, calls = 2,
      log = [EClassify TimeoutError, EAttempt 1, ESleep 1, EClassify (AppError 0),
             EAttempt 0]\<rparr>)"
  by (simp add: call_defs)

text \<open>
  Claim C3, amended. With a timeout \<open>t\<close>, when an attempt has failed with a retried
  error \<open>exc\<close> and the hook has run: the streaming executor, with \<open>r\<close> left of its
  budget, fails with the deadline-exceeded error whose cause is \<open>exc\<close> when
  \<open>r \<le> sleep\<close>, and otherwise takes \<open>sleep\<close> from the budget and sleeps it; the
  single-shot executor fails with the deadline-exceeded error whose cause is \<open>exc\<close>
  when the deadline has passed, and otherwise sleeps the smaller of \<open>sleep\<close> and the
  time left, which does not take the clock past the deadline.
\<close>

theorem sleep_against_budget:
  "(try_body target (Some t) acts st = (TRaise exc, acts1, st1) \<and>
    handle_exit predicate (TRaise exc) st1 = Inr st2 \<and>
    hook_step on_error acts1 st2 = Inr (acts2, st3) \<and>
    remaining_timeout_budget st3 = Some r \<longrightarrow>
      gen_loop target predicate (Some t) on_error (sleep # sleeps) acts st =
        (if r \<le> sleep then (Raised (RetryError t (Some exc)), st3)
         else gen_loop target predicate (Some t) on_error sleeps acts2
                (do_sleep sleep (st3\<lparr>remaining_timeout_budget := Some (r - sleep)\<rparr>)))) \<and>
   (target' (calls cs) = Raises d exc' \<and> is_Exception exc' \<and>
    (predicate' exc' \<or> exc' = TimeoutError) \<and>
    call_hook on_error'
      (emit (EClassify exc')
         ((advance d (emit (EAttempt (calls cs)) (cs\<lparr>calls := Suc (calls cs)\<rparr>)))
            \<lparr>last_exc := Some exc'\<rparr>)) = Inr cs' \<longrightarrow>
      call_loop target' predicate' (Some t) (Some dl) on_error' (sleep # sleeps) cs =
        (if dl \<le> clock cs' then (CallRaised (RetryError t (Some exc')), cs')
         else call_loop target' predicate' (Some t) (Some dl) on_error' sleeps
                (do_sleep (min (dl - clock cs') sleep) cs')) \<and>
      (clock cs' < dl \<longrightarrow> clock (do_sleep (min (dl - clock cs') sleep) cs') \<le> dl))"
proof (intro conjI impI)
  assume a: "try_body target (Some t) acts st = (TRaise exc, acts1, st1) \<and>
    handle_exit predicate (TRaise exc) st1 = Inr st2 \<and>
    hook_step on_error acts1 st2 = Inr (acts2, st3) \<and>
    remaining_timeout_budget st3 = Some r"
  then have "last_exc st3 = Some exc"
    by (auto dest!: handle_exit_last_exc hook_step_last_exc)
  with a show "gen_loop target predicate (Some t) on_error (sleep # sleeps) acts st =
        (if r \<le> sleep then (Raised (RetryError t (Some exc)), st3)
         else gen_loop target predicate (Some t) on_error sleeps acts2
                (do_sleep sleep (st3\<lparr>remaining_timeout_budget := Some (r - sleep)\<rparr>)))"
    by (simp add: budget_step_def retry_error_def)
next
  assume b: "target' (calls cs) = Raises d exc' \<and> is_Exception exc' \<and>
    (predicate' exc' \<or> exc' = TimeoutError) \<and>
    call_hook on_error'
      (emit (EClassify exc')
         ((advance d (emit (EAttempt (calls cs)) (cs\<lparr>calls := Suc (calls cs)\<rparr>)))
            \<lparr>last_exc := Some exc'\<rparr>)) = Inr cs'"
  then have "last_exc cs' = Some exc'"
    by (auto dest!: call_hook_last_exc simp: emit_def)
  with b show "call_loop target' predicate' (Some t) (Some dl) on_error' (sleep # sleeps) cs =
        (if dl \<le> clock cs' then (CallRaised (RetryError t (Some exc')), cs')
         else call_loop target' predicate' (Some t) (Some dl) on_error' sleeps
                (do_sleep (min (dl - clock cs') sleep) cs'))"
    by (auto simp: Let_def deadline_step_def retry_error_def)
next
  assume "clock cs' < dl"
  then show "clock (do_sleep (min (dl - clock cs') sleep) cs') \<le> dl"
    by (simp add: do_sleep_def advance_def emit_def)
qed

theorem sleep_against_budget_witness:
  "gen_loop (\<lambda>i. Stream [failing 1 (AppError 0)] :: nat source) (\<lambda>e. e = AppError 0) (Some 10)
      None [20, 40] [] (gen_init (Some 10)) =
     (Raised (RetryError 10 (Some (AppError 0))),
      \<lparr>clock = 1, last_exc = Some (AppError 0), calls = 1,
       log = [EClose 0, EClassify (AppError 0), EPull 0 None, EOpen 0],
       remaining_timeout_budget = Some 9, start_timestamp = Some 0, subgenerator = Some 0,
       cleanup = None, closing = False\<rparr>) \<and>
   call_loop (\<lambda>i. if i = 0 then Raises 9 (AppError 0) else Produces 0 (7::nat))
      (\<lambda>e. e = AppError 0) (Some 10) (Some 10) None [20, 40] call_init =
     (Returned 7,
      \<lparr>clock = 10, last_exc = Some (AppError 0), calls = 2,
       log = [EAttempt 1, ESleep 1, EClassify (AppError 0), EAttempt 0]\<rparr>) \<and>
   clock (do_sleep (min (10 - 9) 20)
      (\<lparr>clock = 9, last_exc = Some (AppError 0), calls = 1,
        log = [EClassify (AppError 0), EAttempt 0]\<rparr> :: nat run_state)) \<le> 10"
  using sleep_against_budget
    [where target = "\<lambda>i. Stream [failing 1 (AppError 0)] :: nat source" and t = 10
       and acts = "[]" and st = "gen_init (Some 10)" and exc = "AppError 0"
       and ?acts1.0 = "[]"
       and ?st1.0 = "\<lparr>clock = 1, last_exc = None, calls = 1, log = [EPull 0 None, EOpen 0],
          remaining_timeout_budget = Some 10, start_timestamp = Some 0,
          subgenerator = Some 0, cleanup = None, closing = False\<rparr>"
       and predicate = "\<lambda>e. e = AppError 0"
       and ?st2.0 = "\<lparr>clock = 1, last_exc = Some (AppError 0), calls = 1,
          log = [EClose 0, EClassify (AppError 0), EPull 0 None, EOpen 0],
          remaining_timeout_budget = Some 9, start_timestamp = Some 0,
          subgenerator = Some 0, cleanup = None, closing = False\<rparr>"
       and on_error = None and ?acts2.0 = "[]"
       and ?st3.0 = "\<lparr>clock = 1, last_exc = Some (AppError 0), calls = 1,
          log = [EClose 0, EClassify (AppError 0), EPull 0 None, EOpen 0],
          remaining_timeout_budget = Some 9, start_timestamp = Some 0,
          subgenerator = Some 0, cleanup = None, closing = False\<rparr>"
       and r = 9 and sleep = 20 and sleeps = "[40]"
       and target' = "\<lambda>i. if i = 0 then Raises 9 (AppError 0) else Produces 0 (7::nat)"
       and cs = call_init and d = 9 and exc' = "AppError 0"
       and predicate' = "\<lambda>e. e = AppError 0" and on_error' = None
       and cs' = "\<lparr>clock = 9, last_exc = Some (AppError 0), calls = 1,
          log = [EClassify (AppError 0), EAttempt 0]\<rparr>"
       and dl = 10]
  by (simp add: gen_defs call_defs)

subsection \<open>Errors injected by the consumer\<close>




subsection \<open>Restart after a retryable failure\<close>

text \<open>
  Claim C6, as the claim states it, fails in two ways that the code documents. With an
  error hook that returns a value, that value is yielded between the two generators and
  the consumer sees 1, 2, 0, 3. With a timeout of 4 seconds, pulls of 1 second and a sleep
  of 1 second, the budget left after the failure is not more than the sleep, and the
  consumer sees 1, 2 and then the deadline-exceeded error.
\<close>

theorem restart_scenario_counterexample:
  "retry_target_generator
     (\<lambda>i. if i = 0 then Stream [item 1 1, item 1 2, failing 1 (AppError 0)]
           else Stream [item 1 (3::nat)])
     (\<lambda>e. e = AppError 0) [1, 2] (Some 60) (Some (\<lambda>e. HookReturns (Some 0))) None
     [Next 0 None, Next 0 None, Next 0 None, Next 0 None] =
   (Exhausted,
    \<lparr>clock = 5, last_exc = Some (AppError 0), calls = 2,
     log = [EClose 1, EPull 1 None, EYield 3, EPull 1 None, EOpen 1, ESleep 1, EYield 0,
            EOnError (Some (AppError 0)), EClose 0, EClassify (AppError 0), EPull 0 None,
            EYield 2, EPull 0 None, EYield 1, EPull 0 None, EOpen 0],
     remaining_timeout_budget = Some 55, start_timestamp = Some 5, subgenerator = Some 1,
     cleanup = None, closing = False\<rparr>) \<and>
   retry_target_generator
     (\<lambda>i. if i = 0 then Stream [item 1 1, item 1 2, failing 1 (AppError 0)]
           else Stream [item 1 (3::nat)])
     (\<lambda>e. e = AppError 0) [1, 2] (Some 4) None None
     [Next 0 None, Next 0 None, Next 0 None] =
   (Raised (RetryError 4 (Some (AppError 0))),
    \<lparr>clock = 3, last_exc = Some (AppError 0), calls = 1,
     log = [EClose 0, EClassify (AppError 0), EPull 0 None, EYield 2, EPull 0 None,
            EYield 1, EPull 0 None, EOpen 0],
     remaining_timeout_budget = Some 1, start_timestamp = Some 2, subgenerator = Some 0,
     cleanup = None, closing = False\<rparr>)"
  by (simp add: gen_defs)

text \<open>
  Claim C6, amended. With a timeout \<open>t\<close> that exceeds the time spent in the pulls and
  in the first backoff delay, an error hook that is absent or returns nothing, and a
  consumer that keeps pulling: a run whose first generator yields 1 and 2 and then fails
  with a retryable error, and whose second generator yields 3 and ends, gives the consumer
  exactly 1, 2, 3 and ends quietly; the first generator is closed before the sleep, and
  the second is created after it.
\<close>

theorem restart_scenario:
  assumes "target 0 = Stream [item d1 1, item d2 2, failing d3 e]"
    and "target 1 = Stream [item d4 (3::nat)]"
    and "predicate e" and "is_Exception e" and "e \<noteq> StopAsyncIteration"
    and "0 \<le> d1" and "0 \<le> d2" and "0 \<le> d3" and "0 \<le> d4" and "0 \<le> sleep"
    and "d1 + d2 + d3 + sleep + d4 < t"
    and "case on_error of None \<Rightarrow> True | Some f \<Rightarrow> f (Some e) = HookReturns None"
  shows "case retry_target_generator target predicate (sleep # sleep' # sleeps) (Some t)
              on_error None (Next c1 x1 # Next c2 x2 # Next c3 x3 # later) of
           (out, st) \<Rightarrow>
             out = Exhausted \<and> yields (trace st) = [1, 2, 3] \<and>
             trace st =
               [EOpen 0, EPull 0 None, EYield 1, EPull 0 x1, EYield 2, EPull 0 x2,
                EClassify e, EClose 0] @
               (case on_error of None \<Rightarrow> [] | Some f \<Rightarrow> [EOnError (Some e)]) @
               [ESleep sleep, EOpen 1, EPull 1 None, EYield 3, EPull 1 x3, EClose 1]"
  using assms
  by (cases on_error) (simp_all add: gen_defs trace_def Let_def)

theorem restart_scenario_witness:
  "case retry_target_generator
          (\<lambda>i. if i = 0 then Stream [item 1 1, item 1 2, failing 1 (AppError 0)]
                else Stream [item 1 (3::nat)])
          (\<lambda>e. e = AppError 0) [1, 2, 4] (Some 60) None None
          [Next 0 None, Next 0 None, Next 0 None] of
     (out, st) \<Rightarrow>
       out = Exhausted \<and> yields (trace st) = [1, 2, 3] \<and>
       trace st =
         [EOpen 0, EPull 0 None, EYield 1, EPull 0 None, EYield 2, EPull 0 None,
          EClassify (AppError 0), EClose 0,
          ESleep 1, EOpen 1, EPull 1 None, EYield 3, EPull 1 None, EClose 1]"
  using restart_scenario
    [where target = "\<lambda>i. if i = 0 then Stream [item 1 1, item 1 2, failing 1 (AppError 0)]
                else Stream [item 1 (3::nat)]"
       and ?d1.0 = 1 and ?d2.0 = 1 and ?d3.0 = 1 and ?d4.0 = 1 and e = "AppError 0"
       and predicate = "\<lambda>e. e = AppError 0" and sleep = 1 and sleep' = 2 and sleeps = "[4]"
       and t = 60 and on_error = None and ?c1.0 = 0 and ?c2.0 = 0 and ?c3.0 = 0
       and ?x1.0 = None and ?x2.0 = None and ?x3.0 = None and later = "[]"]
  by simp

subsection \<open>Timeouts of an attempt in the single-shot executor\<close>

text \<open>
  Claim C7, as the claim states it, fails: an attempt that is cancelled for exceeding the
  remaining budget ends when the whole budget of 10 seconds is used up. The classifier is
  called on the timeout (and rejects it), the timeout is treated as retryable all the
  same, and then the deadline test ends the run with the deadline-exceeded error: there
  is no sleep and no second attempt.
\<close>

theorem budget_cancellation_is_fatal_counterexample:
  "retry_target (\<lambda>i. Raises 10 TimeoutError :: nat reply) (\<lambda>e. False) [1, 2] (Some 10)
      None None =
     (CallRaised (RetryError 10 (Some TimeoutError)),
      \<lparr>clock = 10, last_exc = Some TimeoutError, calls = 1,
       log = [EClassify TimeoutError, EAttempt 0]\<rparr>)"
  by (simp add: call_defs)

text \<open>
  Claim C7, amended. In the single-shot executor with a timeout \<open>t\<close>, an attempt that
  fails with \<^verbatim>\<open>asyncio.TimeoutError\<close> is never raised as a fatal error: the classifier
  is called on it and its answer is ignored, the timeout becomes the last error and is
  passed to the hook. When the attempt has ended at or after the deadline, as an attempt
  cancelled for exceeding the remaining budget has, the run ends with the
  deadline-exceeded error whose cause is the timeout, without a sleep or another attempt;
  when it has ended before the deadline, the run sleeps the smaller of the delay and the
  time left and goes through the loop again. The deadline of a run is its timeout.
\<close>

theorem attempt_timeout_never_fatal:
  assumes "target (calls st) = Raises d TimeoutError"
  shows "(t \<noteq> 0 \<longrightarrow>
           retry_target target predicate (sleep # sleeps) (Some t) on_error None =
           call_loop target predicate (Some t) (Some t) on_error (sleep # sleeps)
             \<lparr>clock = 0, last_exc = None, calls = 0, log = []\<rparr>) \<and>
         call_loop target predicate (Some t) (Some dl) on_error (sleep # sleeps) st =
           (let st1 = st\<lparr>clock := clock st + d, last_exc := Some TimeoutError,
                         calls := Suc (calls st),
                         log := EClassify TimeoutError # EAttempt (calls st) # log st\<rparr>;
                st2 = st1\<lparr>log := EOnError (Some TimeoutError) # log st1\<rparr>;
                rest = (\<lambda>s.
                  if dl \<le> clock st + d
                  then (CallRaised (RetryError t (Some TimeoutError)), s)
                  else call_loop target predicate (Some t) (Some dl) on_error sleeps
                         (s\<lparr>clock := clock st + d + max 0 (min (dl - (clock st + d)) sleep),
                            log := ESleep (min (dl - (clock st + d)) sleep) # log s\<rparr>))
            in case on_error of
                 None \<Rightarrow> rest st1
               | Some f \<Rightarrow>
                   (case f (Some TimeoutError) of
                      HookRaises e \<Rightarrow> (CallRaised e, st2)
                    | HookReturns x \<Rightarrow> rest st2))"
  using assms
  by (cases st) (auto simp: call_defs Let_def split: option.splits hook_result.splits)

theorem attempt_timeout_never_fatal_witness:
  "(\<lambda>i. if i = 0 then Raises 2 TimeoutError else Raises 8 TimeoutError :: nat reply)
      (calls (call_init :: nat run_state)) = Raises 2 TimeoutError \<and>
   retry_target (\<lambda>i. if i = 0 then Raises 2 TimeoutError else Raises 8 TimeoutError :: nat reply)
      (\<lambda>e. False) [1, 2] (Some 10) None None =
     (CallRaised (RetryError 10 (Some TimeoutError)),
      \<lparr>clock = 11, last_exc = Some TimeoutError, calls = 2,
       log = [EClassify TimeoutError, EAttempt 1, ESleep 1, EClassify TimeoutError,
              EAttempt 0]\<rparr>)"
  using attempt_timeout_never_fatal
    [where target = "\<lambda>i. if i = 0 then Raises 2 TimeoutError else Raises 8 TimeoutError :: nat reply"
       and st = call_init and d = 2 and t = 10 and dl = 10 and predicate = "\<lambda>e. False"
       and sleep = 1 and sleeps = "[2]" and on_error = None]
  by (simp add: call_defs)

subsection \<open>Copies of a policy\<close>

text \<open>
  Claim C9. The code at a policy with a timeout of 120 seconds and \<^verbatim>\<open>is_generator=True\<close>:
  \<^verbatim>\<open>with_timeout(0)\<close> and \<^verbatim>\<open>with_timeout(None)\<close> return a policy whose timeout is
  still 120 seconds, because \<^verbatim>\<open>_replace\<close> takes \<^verbatim>\<open>timeout or self._timeout\<close>; and
  \<^verbatim>\<open>with_timeout(30)\<close> returns a policy whose \<^verbatim>\<open>is_generator\<close> is \<^verbatim>\<open>None\<close>,
  because \<^verbatim>\<open>_replace\<close> does not pass it on.
\<close>

theorem with_timeout_keeps_old_timeout:
  "self_timeout
     (with_timeout
        (AsyncRetry (\<lambda>e. e = AppError 0) 1 60 2 (Some 120) None (Some True) None
           :: nat async_retry)
        (Some 0)) = Some 120 \<and>
   self_timeout
     (with_timeout
        (AsyncRetry (\<lambda>e. e = AppError 0) 1 60 2 (Some 120) None (Some True) None
           :: nat async_retry)
        None) = Some 120 \<and>
   self_is_generator
     (with_timeout
        (AsyncRetry (\<lambda>e. e = AppError 0) 1 60 2 (Some 120) None (Some True) None
           :: nat async_retry)
        (Some 30)) = None"
  by (simp add: policy_defs)

end
